theory Spec2Isabelle
  imports Main "HOL-Library.Word"
begin

section \<open>Decimal rendering of integers\<close>

text \<open>
  \<open>operator<<\<close> on an integer and \<open>std::to_string\<close> on an \<open>int\<close> both print
  the decimal digits, with a leading minus sign for a negative value.
\<close>

definition digit_char :: "nat \<Rightarrow> char" where
  "digit_char d = ''0123456789'' ! d"

function string_of_nat :: "nat \<Rightarrow> string" where
  "string_of_nat n =
     (if n < 10 then [digit_char n]
      else string_of_nat (n div 10) @ [digit_char (n mod 10)])"
  by pat_completeness auto
termination
  by (relation "measure (\<lambda>n. n)") auto

declare string_of_nat.simps [simp del]

definition to_string :: "int \<Rightarrow> string" where
  "to_string i = (if i < 0 then CHR ''-'' # string_of_nat (nat (- i)) else string_of_nat (nat i))"

section \<open>Return codes of the algorithm interface\<close>

text \<open>\<open>enum class ReturnCode\<close>, with the enumerators' values in \<open>ReturnCode_value\<close>.\<close>

datatype ReturnCode =
    Success
  | UnknownError
  | ConfigError
  | RefuseInput
  | ExtractError
  | ParseError
  | TemplateCreationError
  | VerifTemplateError
  | FaceDetectionError
  | NumDataError
  | TemplateFormatError
  | EnrollDirError
  | InputLocationError
  | MemoryError
  | NotImplemented
  | VendorError

fun ReturnCode_value :: "ReturnCode \<Rightarrow> int" where
  "ReturnCode_value Success = 0"
| "ReturnCode_value UnknownError = 1"
| "ReturnCode_value ConfigError = 2"
| "ReturnCode_value RefuseInput = 3"
| "ReturnCode_value ExtractError = 4"
| "ReturnCode_value ParseError = 5"
| "ReturnCode_value TemplateCreationError = 6"
| "ReturnCode_value VerifTemplateError = 7"
| "ReturnCode_value FaceDetectionError = 8"
| "ReturnCode_value NumDataError = 9"
| "ReturnCode_value TemplateFormatError = 10"
| "ReturnCode_value EnrollDirError = 11"
| "ReturnCode_value InputLocationError = 12"
| "ReturnCode_value MemoryError = 13"
| "ReturnCode_value NotImplemented = 14"
| "ReturnCode_value VendorError = 15"

text \<open>The stream operator for a \<open>ReturnCode\<close> (used in the initialize diagnostic).\<close>

fun ReturnCode_text :: "ReturnCode \<Rightarrow> string" where
  "ReturnCode_text Success = ''Success''"
| "ReturnCode_text UnknownError = ''Unknown Error''"
| "ReturnCode_text ConfigError = ''Error reading configuration files''"
| "ReturnCode_text RefuseInput = ''Elective refusal to process the input''"
| "ReturnCode_text ExtractError = ''Involuntary failure to process the image''"
| "ReturnCode_text ParseError = ''Cannot parse the input data''"
| "ReturnCode_text TemplateCreationError = ''Elective refusal to produce a template''"
| "ReturnCode_text VerifTemplateError =
     ''Either or both of the input templates were result of failed feature extraction''"
| "ReturnCode_text FaceDetectionError = ''Unable to detect a face in the image''"
| "ReturnCode_text NumDataError = ''Number of input images not supported''"
| "ReturnCode_text TemplateFormatError = ''Template file is an incorrect format or defective''"
| "ReturnCode_text EnrollDirError = ''An operation on the enrollment directory failed''"
| "ReturnCode_text InputLocationError =
     ''Cannot locate the input data - the input files or names seem incorrect''"
| "ReturnCode_text MemoryError = ''Memory allocation failed (e.g. out of memory)''"
| "ReturnCode_text NotImplemented = ''Function is not implemented''"
| "ReturnCode_text VendorError = ''Vendor-defined error''"

text \<open>
  \<open>struct ReturnStatus\<close>: a code and an information string; the default constructor
  sets the code to \<open>UnknownError\<close> and the string to the empty string.
\<close>

record ReturnStatus =
  code :: ReturnCode
  info :: string

definition ReturnStatus_default :: ReturnStatus where
  "ReturnStatus_default = \<lparr>code = UnknownError, info = ''''\<rparr>"

text \<open>
  \<open>struct BoundingBox\<close>: four \<open>int16_t\<close> fields; the default constructor sets each
  to \<open>-1\<close>.
\<close>

record BoundingBox =
  xleft :: "16 word"
  ytop :: "16 word"
  width :: "16 word"
  height :: "16 word"

definition BoundingBox_default :: BoundingBox where
  "BoundingBox_default = \<lparr>xleft = - 1, ytop = - 1, width = - 1, height = - 1\<rparr>"

section \<open>Process outcomes\<close>

text \<open>
  Modelled from the spec: the constants \<open>SUCCESS\<close>, \<open>FAILURE\<close> and
  \<open>NOT_IMPLEMENTED\<close> are declared in the driver's utility header, which is not among
  the sources. The spec's CLI surface fixes them as "0 = success, a distinct non-zero =
  generic failure, another distinct non-zero = algorithm capability not implemented".
\<close>

definition SUCCESS :: int where
  "SUCCESS = 0"

definition FAILURE :: int where
  "FAILURE = 1"

definition NOT_IMPLEMENTED :: int where
  "NOT_IMPLEMENTED = 2"

text \<open>\<open>EXIT_FAILURE\<close> of \<open><cstdlib>\<close> and \<open>SIGTERM\<close> of \<open><csignal>\<close>.\<close>

definition EXIT_FAILURE :: int where
  "EXIT_FAILURE = 1"

definition SIGTERM :: nat where
  "SIGTERM = 15"

text \<open>
  How a process of the harness ends: it returns from \<open>main\<close>, calls \<open>exit\<close>, is
  terminated by a signal it raised (the harness installs no handler, so \<open>raise(SIGTERM)\<close>
  has the default disposition and ends the process), or runs into behaviour the language
  leaves undefined.
\<close>

datatype proc_result = Returned int | Exited int | Signalled nat | Undefined

text \<open>
  The value \<open>wait\<close> stores in \<open>stat_val\<close>, read only through the four macros of
  \<open><sys/wait.h>\<close>: a normal exit with its 8-bit status, a termination by a signal, or
  anything else (a stopped or continued child).
\<close>

datatype wait_status = StatExited int | StatSignaled nat | StatOther

fun WIFEXITED :: "wait_status \<Rightarrow> bool" where
  "WIFEXITED (StatExited c) = True"
| "WIFEXITED _ = False"

fun WEXITSTATUS :: "wait_status \<Rightarrow> int" where
  "WEXITSTATUS (StatExited c) = c"
| "WEXITSTATUS _ = 0"

fun WIFSIGNALED :: "wait_status \<Rightarrow> bool" where
  "WIFSIGNALED (StatSignaled s) = True"
| "WIFSIGNALED _ = False"

fun WTERMSIG :: "wait_status \<Rightarrow> nat" where
  "WTERMSIG (StatSignaled s) = s"
| "WTERMSIG _ = 0"

section \<open>Data of the record evaluator\<close>

text \<open>
  \<open>struct Image\<close> as the harness sees it: the raster that the decoder filled in (width,
  height, depth and pixel data, none of which the harness reads) and the description
  label, which the harness overwrites.
\<close>

record ('r, 'l) Image =
  raster :: 'r
  description :: 'l

text \<open>
  \<open>ImageQualityAssessment\<close>: the bounding box and the map from quality measure to
  value; a default-constructed one has the default bounding box and an empty map.
\<close>

record ('m, 'v) ImageQualityAssessment =
  qAssessments :: "'m \<rightharpoonup> 'v"
  boundingBox :: BoundingBox

definition ImageQualityAssessment_default :: "('m, 'v) ImageQualityAssessment" where
  "ImageQualityAssessment_default =
     \<lparr>qAssessments = Map.empty, boundingBox = BoundingBox_default\<rparr>"

text \<open>
  \<open>enum class Action\<close>: the harness names one enumerator, \<open>VectorQ\<close>; every other
  value goes through the \<open>default\<close> branches.
\<close>

datatype Action = VectorQ | OtherAction nat

text \<open>
  What the harness is linked against and cannot see: the image decoder \<open>readImage\<close>
  (\<open>None\<close> when it returns false), the lookup table \<open>mapStringToImgLabel\<close>, the
  vendor's \<open>vectorQuality\<close> (it may change the implementation object, so it takes and
  returns the object's state), the enumerators of \<open>QualityMeasure\<close> from \<open>Begin\<close> up to
  \<open>End\<close> with their stream operator, and \<open>std::to_string\<close> on a measure's value.
\<close>

record ('a, 'r, 'l, 'm, 'v) collaborators =
  readImage :: "string \<Rightarrow> ('r, 'l) Image option"
  mapStringToImgLabel :: "string \<Rightarrow> 'l"
  vectorQuality :: "'a \<Rightarrow> ('r, 'l) Image \<Rightarrow> 'a \<times> ReturnStatus \<times> ('m, 'v) ImageQualityAssessment"
  quality_measures :: "'m list"
  measure_name :: "'m \<Rightarrow> string"
  value_to_string :: "'v \<Rightarrow> string"

section \<open>Files\<close>

text \<open>
  The files the worker can see, by path, and the paths that can be opened for writing
  (an \<open>ofstream\<close> creates the file or truncates it). \<open>remove\<close> deletes an existing
  file and fails on a missing one.
\<close>

record filesystem =
  files :: "string \<rightharpoonup> string"
  writable :: "string \<Rightarrow> bool"

definition remove_file :: "string \<Rightarrow> filesystem \<Rightarrow> bool \<times> filesystem" where
  "remove_file p fs =
     (case files fs p of
        None \<Rightarrow> (False, fs)
      | Some _ \<Rightarrow> (True, fs\<lparr>files := (files fs)(p := None)\<rparr>))"

section \<open>Reading a shard\<close>

text \<open>
  \<open>inputStream >> id >> imagePath >> desc\<close>: each extraction skips white space and
  takes the characters up to the next white space; the loop condition fails as soon as
  one of the three extractions finds nothing.
\<close>

definition isspace :: "char \<Rightarrow> bool" where
  "isspace c = (c \<in> set [CHR '' '', CHR 0x09, CHR 0x0A, CHR 0x0B, CHR 0x0C, CHR 0x0D])"

fun tokens_from :: "string \<Rightarrow> string \<Rightarrow> string list" where
  "tokens_from cur [] = (if cur = [] then [] else [cur])"
| "tokens_from cur (c # cs) =
     (if isspace c then (if cur = [] then tokens_from [] cs else cur # tokens_from [] cs)
      else tokens_from (cur @ [c]) cs)"

definition tokens :: "string \<Rightarrow> string list" where
  "tokens s = tokens_from [] s"

type_synonym manifest_record = "string \<times> string \<times> string"

fun read_records :: "string list \<Rightarrow> manifest_record list" where
  "read_records (a # b # c # rest) = (a, b, c) # read_records rest"
| "read_records _ = []"

section \<open>The record evaluator\<close>

definition endl :: string where
  "endl = [CHR 0x0A]"

definition log_header :: "('a, 'r, 'l, 'm, 'v) collaborators \<Rightarrow> string" where
  "log_header env =
     ''id image returnCode bb_xleft bb_ytop bb_width bb_height '' @
     concat (map (\<lambda>e. measure_name env e @ '' '') (quality_measures env)) @ endl"

definition data_row :: "('a, 'r, 'l, 'm, 'v) collaborators \<Rightarrow> string \<Rightarrow> string \<Rightarrow> ReturnStatus
    \<Rightarrow> ('m, 'v) ImageQualityAssessment \<Rightarrow> string" where
  "data_row env ident imagePath ret assessments =
     (let detection = qAssessments assessments; bb = boundingBox assessments in
      ident @ '' '' @ imagePath @ '' '' @ to_string (ReturnCode_value (code ret)) @ '' '' @
      to_string (sint (xleft bb)) @ '' '' @ to_string (sint (ytop bb)) @ '' '' @
      to_string (sint (width bb)) @ '' '' @ to_string (sint (height bb)) @
      concat (map (\<lambda>e. '' '' @ (case detection e of Some v \<Rightarrow> value_to_string env v
                                   | None \<Rightarrow> ''NA'')) (quality_measures env)) @
      endl)"

text \<open>
  The local state of \<open>runQuality\<close> while it reads the shard: the implementation object,
  the variable \<open>ret\<close>, everything written to \<open>logStream\<close> so far (each line ends with
  \<open>endl\<close>, which flushes it to the file) and the lines written to \<open>cerr\<close>.
\<close>

record 'a eval_state =
  impl :: 'a
  ret :: ReturnStatus
  logStream :: string
  cerr :: "string list"

text \<open>How the \<open>while\<close> loop is left: the input is exhausted, \<open>break\<close>, or a raised signal.\<close>

datatype loop_exit = EndOfInput | Break | Raised nat

fun processRecords :: "('a, 'r, 'l, 'm, 'v) collaborators \<Rightarrow> Action \<Rightarrow> manifest_record list
    \<Rightarrow> 'a eval_state \<Rightarrow> loop_exit \<times> 'a eval_state" where
  "processRecords env action [] st = (EndOfInput, st)"
| "processRecords env action ((ident, imagePath, desc) # rest) st =
     (case readImage env imagePath of
        None \<Rightarrow>
          (Raised SIGTERM,
           st\<lparr>cerr := cerr st @ [''[ERROR] Failed to load image file: '' @ imagePath @ ''.'']\<rparr>)
      | Some img \<Rightarrow>
          (let face = img\<lparr>description := mapStringToImgLabel env desc\<rparr>;
               (impl', ret', assessments) =
                 (if action = VectorQ then vectorQuality env (impl st) face
                  else (impl st, ret st, ImageQualityAssessment_default))
           in if code ret' = NotImplemented then (Break, st\<lparr>impl := impl', ret := ret'\<rparr>)
              else processRecords env action rest
                     (st\<lparr>impl := impl', ret := ret',
                         logStream := logStream st @
                           (if action = VectorQ then data_row env ident imagePath ret' assessments
                            else [])\<rparr>)))"

definition runQuality :: "('a, 'r, 'l, 'm, 'v) collaborators \<Rightarrow> 'a \<Rightarrow> string \<Rightarrow> string \<Rightarrow> Action
    \<Rightarrow> filesystem \<Rightarrow> proc_result \<times> filesystem \<times> string list" where
  "runQuality env implPtr inputFile outputLog action fs =
     (case files fs inputFile of
        None \<Rightarrow>
          (Signalled SIGTERM, fs, [''[ERROR] Failed to open stream for '' @ inputFile @ ''.''])
      | Some content \<Rightarrow>
          if \<not> writable fs outputLog then
            (Signalled SIGTERM, fs, [''[ERROR] Failed to open stream for '' @ outputLog @ ''.''])
          else
            (let header = (if action = VectorQ then log_header env else []);
                 (ex, st) = processRecords env action (read_records (tokens content))
                              \<lparr>impl = implPtr, ret = ReturnStatus_default,
                               logStream = header, cerr = []\<rparr>;
                 fs1 = fs\<lparr>files := (files fs)(outputLog \<mapsto> logStream st)\<rparr>
             in case ex of
                  Raised sig \<Rightarrow> (Signalled sig, fs1, cerr st)
                | _ \<Rightarrow>
                    (let (removed, fs2) = remove_file inputFile fs1;
                         err2 = cerr st @
                           (if removed then [] else [''Error deleting file: '' @ inputFile])
                     in if code (ret st) = NotImplemented then
                          (let (removed', fs3) = remove_file outputLog fs2;
                               err3 = err2 @
                                 (if removed' then [] else [''Error deleting file: '' @ outputLog])
                           in (Returned NOT_IMPLEMENTED, fs3, err3))
                        else (Returned SUCCESS, fs2, err2))))"

section \<open>What a log must look like\<close>

text \<open>
  The log format in the spec's words, to be compared with what \<open>runQuality\<close> writes:
  a header line listing the column names, then one line per evaluated record, its
  columns separated by single spaces: id, image path, the status code as an integer, the
  four fields of the bounding box, and one value per quality measure in enumeration
  order, \<open>NA\<close> where the assessment has none.
\<close>

fun separated :: "string \<Rightarrow> string list \<Rightarrow> string" where
  "separated sep [] = []"
| "separated sep [x] = x"
| "separated sep (x # y # ys) = x @ sep @ separated sep (y # ys)"

definition spec_header :: "('a, 'r, 'l, 'm, 'v) collaborators \<Rightarrow> string" where
  "spec_header env =
     concat (map (\<lambda>c. c @ '' '')
       ([''id'', ''image'', ''returnCode'', ''bb_xleft'', ''bb_ytop'', ''bb_width'', ''bb_height'']
        @ map (measure_name env) (quality_measures env))) @ endl"

definition spec_columns :: "('a, 'r, 'l, 'm, 'v) collaborators
    \<Rightarrow> manifest_record \<times> ReturnStatus \<times> ('m, 'v) ImageQualityAssessment \<Rightarrow> string list" where
  "spec_columns env x =
     (case x of ((ident, imagePath, desc), r, q) \<Rightarrow>
        [ident, imagePath, to_string (ReturnCode_value (code r)),
         to_string (sint (xleft (boundingBox q))), to_string (sint (ytop (boundingBox q))),
         to_string (sint (width (boundingBox q))), to_string (sint (height (boundingBox q)))]
        @ map (\<lambda>e. case qAssessments q e of None \<Rightarrow> ''NA'' | Some v \<Rightarrow> value_to_string env v)
            (quality_measures env))"

definition spec_row :: "('a, 'r, 'l, 'm, 'v) collaborators
    \<Rightarrow> manifest_record \<times> ReturnStatus \<times> ('m, 'v) ImageQualityAssessment \<Rightarrow> string" where
  "spec_row env x = separated '' '' (spec_columns env x) @ endl"

text \<open>
  The evaluated records of a shard: those the loop reaches and whose status is not
  \<open>NotImplemented\<close>, each with the status and the assessment the algorithm returned
  for it. The list ends at the first image that does not decode and at the first
  \<open>NotImplemented\<close>.
\<close>

fun evaluated :: "('a, 'r, 'l, 'm, 'v) collaborators \<Rightarrow> 'a \<Rightarrow> manifest_record list
    \<Rightarrow> (manifest_record \<times> ReturnStatus \<times> ('m, 'v) ImageQualityAssessment) list" where
  "evaluated env a [] = []"
| "evaluated env a ((ident, imagePath, desc) # rest) =
     (case readImage env imagePath of
        None \<Rightarrow> []
      | Some img \<Rightarrow>
          (case vectorQuality env a (img\<lparr>description := mapStringToImgLabel env desc\<rparr>) of
             (a', r, q) \<Rightarrow>
               if code r = NotImplemented then []
               else ((ident, imagePath, desc), r, q) # evaluated env a' rest))"

section \<open>The version gate\<close>

text \<open>
  The four version symbols that the linked library defines; \<open>uint16_t\<close> each.
\<close>

record versions =
  FRVT_STRUCTS_MAJOR_VERSION :: "16 word"
  FRVT_STRUCTS_MINOR_VERSION :: "16 word"
  API_MAJOR_VERSION :: "16 word"
  API_MINOR_VERSION :: "16 word"

definition show_uint16 :: "16 word \<Rightarrow> string" where
  "show_uint16 w = string_of_nat (unat w)"

text \<open>
  The two checks at the start of \<open>main\<close>: \<open>Some\<close> of the diagnostic written to
  \<open>cerr\<close> when \<open>main\<close> returns \<open>FAILURE\<close> there, \<open>None\<close> when both checks pass.
\<close>

definition versionGate :: "versions \<Rightarrow> string option" where
  "versionGate v =
     (let currAPIMajorVersion = 4 :: 16 word;
          currAPIMinorVersion = 1 :: 16 word;
          currStructsMajorVersion = 3 :: 16 word;
          currStructsMinorVersion = 0 :: 16 word
      in if FRVT_STRUCTS_MAJOR_VERSION v \<noteq> currStructsMajorVersion \<or>
            FRVT_STRUCTS_MINOR_VERSION v \<noteq> currStructsMinorVersion then
           Some (''[ERROR] You'' @ [CHR 0x27] @
                 ''ve compiled your library with an old version of the frvt_structs.h file: version '' @
                 show_uint16 (FRVT_STRUCTS_MAJOR_VERSION v) @ ''.'' @
                 show_uint16 (FRVT_STRUCTS_MINOR_VERSION v) @
                 ''.  Please re-build with the latest version: '' @
                 show_uint16 currStructsMajorVersion @ ''.'' @
                 show_uint16 currStructsMinorVersion @ ''.'')
         else if API_MAJOR_VERSION v \<noteq> currAPIMajorVersion \<or>
                 API_MINOR_VERSION v \<noteq> currAPIMinorVersion then
           Some (''[ERROR] You'' @ [CHR 0x27] @
                 ''ve compiled your library with an old version of the API header file: '' @
                 show_uint16 (API_MAJOR_VERSION v) @ ''.'' @
                 show_uint16 (API_MINOR_VERSION v) @
                 ''.  Please re-build with the latest version:'' @
                 show_uint16 currAPIMajorVersion @ ''.'' @
                 show_uint16 currStructsMinorVersion @ ''.'')
         else None)"

section \<open>The command line\<close>

text \<open>
  The local variables of \<open>main\<close> that the flags set (\<open>configDir\<close>, \<open>outputDir\<close>,
  \<open>outputFileStem\<close>, \<open>inputFile\<close>, \<open>numForks\<close>), with their initial values.
\<close>

record options =
  opt_configDir :: string
  opt_outputDir :: string
  opt_outputFileStem :: string
  opt_inputFile :: string
  opt_numForks :: int

definition default_options :: options where
  "default_options =
     \<lparr>opt_configDir = ''config'', opt_outputDir = ''output'', opt_outputFileStem = ''stem'',
      opt_inputFile = '''', opt_numForks = 1\<rparr>"

text \<open>
  \<open>atoi\<close>: white space, an optional sign, then decimal digits up to the first other
  character; 0 when there is no digit. The C library converts as \<open>strtol\<close> does and
  casts the \<open>long\<close> to \<open>int\<close>: the value is clamped to 64 bits and then reduced to
  its low 32 bits, read as a signed number.
\<close>

definition isdigit :: "char \<Rightarrow> bool" where
  "isdigit c = (48 \<le> (of_char c :: nat) \<and> (of_char c :: nat) \<le> 57)"

fun atoi_digits :: "int \<Rightarrow> string \<Rightarrow> int" where
  "atoi_digits acc [] = acc"
| "atoi_digits acc (c # cs) =
     (if isdigit c then atoi_digits (10 * acc + (of_char c - 48)) cs else acc)"

definition strtol :: "string \<Rightarrow> int" where
  "strtol s =
     (let v = (case dropWhile isspace s of
                 [] \<Rightarrow> 0
               | c # cs \<Rightarrow>
                   if c = CHR ''-'' then - atoi_digits 0 cs
                   else if c = CHR ''+'' then atoi_digits 0 cs
                   else atoi_digits 0 (c # cs))
      in max (- (2 ^ 63)) (min (2 ^ 63 - 1) v))"

definition atoi :: "string \<Rightarrow> int" where
  "atoi s = sint (word_of_int (strtol s) :: 32 word)"

text \<open>
  The flag loop of \<open>main\<close> over the arguments after the action. A flag takes the next
  argument as its value; when a flag is the last argument that value is \<open>argv[argc]\<close>,
  the null pointer, and converting it to a string (or passing it to \<open>atoi\<close>) is
  undefined. An argument that is none of the five flags ends the loop through \<open>usage\<close>.
\<close>

datatype flag_error = UnrecognizedFlag string | NullArgument

fun parseFlags :: "string list \<Rightarrow> options \<Rightarrow> flag_error + options" where
  "parseFlags [] opts = Inr opts"
| "parseFlags [flag] opts =
     (if flag = ''-c'' \<or> flag = ''-o'' \<or> flag = ''-h'' \<or> flag = ''-i'' \<or> flag = ''-t''
      then Inl NullArgument
      else Inl (UnrecognizedFlag flag))"
| "parseFlags (flag # v # rest) opts =
     (if flag = ''-c'' then parseFlags rest (opts\<lparr>opt_configDir := v\<rparr>)
      else if flag = ''-o'' then parseFlags rest (opts\<lparr>opt_outputDir := v\<rparr>)
      else if flag = ''-h'' then parseFlags rest (opts\<lparr>opt_outputFileStem := v\<rparr>)
      else if flag = ''-i'' then parseFlags rest (opts\<lparr>opt_inputFile := v\<rparr>)
      else if flag = ''-t'' then parseFlags rest (opts\<lparr>opt_numForks := atoi v\<rparr>)
      else Inl (UnrecognizedFlag flag))"

section \<open>The orchestrator\<close>

text \<open>
  What the parent process does that can be seen from outside, in order: lines on
  \<open>cerr\<close> and calls of the algorithm, the partitioner and \<open>fork\<close> (with the shard's
  index).
\<close>

datatype event =
    Cerr string
  | CallGetImplementation
  | CallInitialize string
  | CallSplitInputFile string string int
  | CallFork nat

text \<open>
  What \<open>main\<close> is linked against and what the operating system answers: the table
  \<open>mapStringToAction\<close>, the vendor's \<open>getImplementation\<close> and \<open>initialize\<close>, the
  partitioner \<open>splitInputFile\<close> (its declaration is not among the sources; it is given
  the input file, the output directory and \<open>numForks\<close>, and the model lets it return its
  status, the value \<open>numForks\<close> has after the call and the vector of shard paths), the
  result of each \<open>fork\<close> in the parent (\<open>None\<close> for \<open>-1\<close>, else the child's process
  id) and the results of the successive calls of \<open>wait\<close>.
\<close>

record 'a harness =
  mapStringToAction :: "string \<Rightarrow> Action"
  getImplementation :: 'a
  initialize :: "'a \<Rightarrow> string \<Rightarrow> 'a \<times> ReturnStatus"
  splitInputFile :: "string \<Rightarrow> string \<Rightarrow> int \<Rightarrow> int \<times> int \<times> string list"
  fork :: "nat \<Rightarrow> nat option"
  wait :: "(nat \<times> wait_status) list"

definition usage :: "string \<Rightarrow> event list \<Rightarrow> proc_result \<times> event list" where
  "usage executable evs =
     (Exited EXIT_FAILURE,
      evs @ [Cerr (''Usage: '' @ executable @
                   '' -c configDir -o outputDir -h outputStem -i inputFile -t numForks'')])"

text \<open>The five flags, and the events that are calls rather than lines on \<open>cerr\<close>.\<close>

definition known_flag :: "string \<Rightarrow> bool" where
  "known_flag f = (f \<in> set [''-c'', ''-o'', ''-h'', ''-i'', ''-t''])"

fun is_call :: "event \<Rightarrow> bool" where
  "is_call (Cerr s) = False"
| "is_call _ = True"

section \<open>The parent's join loop\<close>

text \<open>
  The \<open>while (numForks > 0)\<close> loop at the end of \<open>main\<close>. Its second argument is
  \<open>exitStatus\<close>; \<open>ws\<close> holds what the successive calls of \<open>wait\<close> return, a process
  id and a status each, in reaping order; \<open>err\<close> collects the lines written to
  \<open>cerr\<close>. When no child is left, \<open>wait\<close> fails and leaves \<open>stat_val\<close> unwritten, and
  the loop reads an indeterminate value.
\<close>

fun waitChildren :: "int \<Rightarrow> int \<Rightarrow> (nat \<times> wait_status) list \<Rightarrow> string list
    \<Rightarrow> proc_result \<times> string list" where
  "waitChildren numForks exitStatus [] err =
     (if numForks > 0 then (Undefined, err) else (Returned exitStatus, err))"
| "waitChildren numForks exitStatus ((cpid, stat_val) # ws) err =
     (if numForks > 0 then
        (if WIFEXITED stat_val then
           waitChildren (numForks - 1) (WEXITSTATUS stat_val) ws err
         else if WIFSIGNALED stat_val then
           waitChildren (numForks - 1) FAILURE ws
             (err @ [''PID '' @ string_of_nat cpid @ '' exited due to signal '' @
                     string_of_nat (WTERMSIG stat_val)])
         else
           waitChildren (numForks - 1) FAILURE ws
             (err @ [''PID '' @ string_of_nat cpid @ '' exited with unknown status.'']))
      else (Returned exitStatus, err))"

text \<open>
  The \<open>fork\<close> loop as the parent runs it: the flag \<open>parent\<close> and the events so far.
\<close>

fun forkLoop :: "(nat \<Rightarrow> nat option) \<Rightarrow> nat \<Rightarrow> string list \<Rightarrow> bool \<Rightarrow> event list
    \<Rightarrow> bool \<times> event list" where
  "forkLoop frk i [] parent evs = (parent, evs)"
| "forkLoop frk i (shard # rest) parent evs =
     (case frk i of
        None \<Rightarrow> forkLoop frk (Suc i) rest parent (evs @ [CallFork i, Cerr ''Problem forking''])
      | Some cpid \<Rightarrow> forkLoop frk (Suc i) rest True (evs @ [CallFork i]))"

text \<open>
  What the child of the \<open>i\<close>-th \<open>fork\<close> does: it returns from \<open>main\<close> with the result
  of \<open>runQuality\<close> on its shard, or with \<open>FAILURE\<close> for another action.
\<close>

definition forkChild :: "('a, 'r, 'l, 'm, 'v) collaborators \<Rightarrow> 'a \<Rightarrow> options \<Rightarrow> Action \<Rightarrow> nat
    \<Rightarrow> string \<Rightarrow> filesystem \<Rightarrow> proc_result \<times> filesystem \<times> string list" where
  "forkChild env implPtr opts action i shard fs =
     (case action of
        VectorQ \<Rightarrow>
          runQuality env implPtr shard
            (opt_outputDir opts @ ''/'' @ opt_outputFileStem opts @ ''.log.'' @ string_of_nat i)
            action fs
      | _ \<Rightarrow> (Returned FAILURE, fs, []))"

text \<open>\<open>main\<close> in the parent process, from the call of \<open>getImplementation\<close> on.\<close>

definition orchestrate :: "'a harness \<Rightarrow> options \<Rightarrow> proc_result \<times> event list" where
  "orchestrate h opts =
     (let implPtr = getImplementation h;
          (implPtr', ret) = initialize h implPtr (opt_configDir opts);
          evs = [CallGetImplementation, CallInitialize (opt_configDir opts)]
      in if code ret \<noteq> Success then
           (Returned FAILURE,
            evs @ [Cerr (''[ERROR] initialize() returned error: '' @ ReturnCode_text (code ret) @ ''.'')])
         else
           (let (status, numForks', inputFileVector) =
                  splitInputFile h (opt_inputFile opts) (opt_outputDir opts) (opt_numForks opts);
                evs' = evs @
                  [CallSplitInputFile (opt_inputFile opts) (opt_outputDir opts) (opt_numForks opts)]
            in if status \<noteq> SUCCESS then
                 (Returned FAILURE,
                  evs' @ [Cerr ''[ERROR] An error occurred with processing the input file.''])
               else
                 (let (parent, evs'') = forkLoop (fork h) 0 inputFileVector False evs'
                  in if parent then
                       (case waitChildren numForks' SUCCESS (wait h) [] of
                          (res, err) \<Rightarrow> (res, evs'' @ map Cerr err))
                     else (Returned SUCCESS, evs''))))"

definition main :: "versions \<Rightarrow> 'a harness \<Rightarrow> string list \<Rightarrow> proc_result \<times> event list" where
  "main v h argv =
     (case versionGate v of
        Some diagnostic \<Rightarrow> (Returned FAILURE, [Cerr diagnostic])
      | None \<Rightarrow>
          (case argv of
             [] \<Rightarrow> (Undefined, [])
           | [executable] \<Rightarrow> usage executable []
           | executable # actionstr # flags \<Rightarrow>
               (case parseFlags flags default_options of
                  Inl NullArgument \<Rightarrow> (Undefined, [])
                | Inl (UnrecognizedFlag flag) \<Rightarrow>
                    usage executable [Cerr (''[ERROR] Unrecognized flag: '' @ flag)]
                | Inr opts \<Rightarrow>
                    (case mapStringToAction h actionstr of
                       VectorQ \<Rightarrow> orchestrate h opts
                     | _ \<Rightarrow> usage executable [Cerr (''Unknown command: '' @ actionstr)]))))"

section \<open>The partitioner\<close>

text \<open>
  Modelled from the spec: \<open>splitInputFile\<close> is defined in the driver's utility source,
  which is not among the sources. The spec's Input Partitioner distributes the records
  of the manifest across N shards, "shard 0 gets the first block, shard 1 the next,
  etc. -- a roughly-equal contiguous split". Here the first \<open>M mod N\<close> shards take one
  record more than the others.
\<close>

fun shard_sizes :: "nat \<Rightarrow> nat \<Rightarrow> nat \<Rightarrow> nat list" where
  "shard_sizes q r 0 = []"
| "shard_sizes q r (Suc k) = (if 0 < r then Suc q else q) # shard_sizes q (r - 1) k"

fun take_blocks :: "nat list \<Rightarrow> 'a list \<Rightarrow> 'a list list" where
  "take_blocks [] xs = []"
| "take_blocks (n # ns) xs = take n xs # take_blocks ns (drop n xs)"

definition splitRecords :: "nat \<Rightarrow> 'a list \<Rightarrow> 'a list list" where
  "splitRecords N records =
     take_blocks (shard_sizes (length records div N) (length records mod N) N) records"

section \<open>Sample inputs\<close>

text \<open>
  An algorithm that counts its calls, declines the label \<open>none\<close>, finds no face under
  the label \<open>dark\<close> and succeeds otherwise; a decoder that fails on \<open>gone.png\<close>; two
  quality measures.
\<close>

definition demo_env :: "(nat, unit, string, nat, nat) collaborators" where
  "demo_env =
     \<lparr>readImage = (\<lambda>p. if p = ''gone.png'' then None else Some \<lparr>raster = (), description = ''''\<rparr>),
      mapStringToImgLabel = (\<lambda>s. s),
      vectorQuality = (\<lambda>n face.
        (Suc n,
         \<lparr>code = (if description face = ''none'' then NotImplemented
                  else if description face = ''dark'' then FaceDetectionError else Success),
          info = ''''\<rparr>,
         \<lparr>qAssessments = [0 \<mapsto> n], boundingBox = BoundingBox_default\<rparr>)),
      quality_measures = [0, 1],
      measure_name = (\<lambda>m. if m = 0 then ''Sharpness'' else ''Pose''),
      value_to_string = string_of_nat\<rparr>"

definition demo_fs :: "string \<Rightarrow> filesystem" where
  "demo_fs content =
     \<lparr>files = [''manifest.txt'' \<mapsto> ''a a.png iso'', ''shard.0'' \<mapsto> content],
      writable = (\<lambda>p. p \<noteq> ''/proc/out'')\<rparr>"

definition demo_harness :: "nat harness" where
  "demo_harness =
     \<lparr>mapStringToAction = (\<lambda>s. if s = ''vectorQ'' then VectorQ else OtherAction 0),
      getImplementation = 0,
      initialize = (\<lambda>a dir. (a, \<lparr>code = Success, info = ''''\<rparr>)),
      splitInputFile = (\<lambda>inp out n. (if inp = '''' then FAILURE else SUCCESS, n, [''shard.0''])),
      fork = (\<lambda>i. Some (100 + i)),
      wait = [(100, StatExited 0)]\<rparr>"

definition demo_versions :: "16 word \<Rightarrow> 16 word \<Rightarrow> versions" where
  "demo_versions api_major api_minor =
     \<lparr>FRVT_STRUCTS_MAJOR_VERSION = 3, FRVT_STRUCTS_MINOR_VERSION = 0,
      API_MAJOR_VERSION = api_major, API_MINOR_VERSION = api_minor\<rparr>"

section \<open>Properties\<close>

subsection \<open>The read loop\<close>

lemma processRecords_append:
  "processRecords env action (xs @ ys) st =
     (case processRecords env action xs st of
        (EndOfInput, st') \<Rightarrow> processRecords env action ys st'
      | other \<Rightarrow> other)"
proof (induction xs arbitrary: st action)
  case Nil
  show ?case by simp
next
  case (Cons r xs)
  obtain ident imagePath desc where r: "r = (ident, imagePath, desc)"
    by (cases r) auto
  show ?case
    unfolding r
    by (auto simp: Cons.IH Let_def split: option.splits prod.splits loop_exit.splits)
qed

lemma processRecords_ret:
  "processRecords env action recs st = (ex, st') \<Longrightarrow>
     (ex = Break \<longrightarrow> code (ret st') = NotImplemented) \<and>
     (ex = EndOfInput \<longrightarrow> code (ret st) \<noteq> NotImplemented \<longrightarrow> code (ret st') \<noteq> NotImplemented)"
proof (induction recs arbitrary: st)
  case Nil
  then show ?case by auto
next
  case (Cons r xs)
  obtain ident imagePath desc where r: "r = (ident, imagePath, desc)"
    by (cases r) auto
  show ?case
  proof (cases "readImage env imagePath")
    case None
    with Cons.prems show ?thesis by (auto simp: r)
  next
    case (Some img)
    obtain impl' r' a where v:
      "(if action = VectorQ
        then vectorQuality env (impl st) (img\<lparr>description := mapStringToImgLabel env desc\<rparr>)
        else (impl st, ret st, ImageQualityAssessment_default)) = (impl', r', a)"
      by (metis prod_cases3)
    show ?thesis
    proof (cases "code r' = NotImplemented")
      case True
      with Cons.prems Some v show ?thesis by (auto simp: r)
    next
      case False
      with Cons.prems Some v have
        "processRecords env action xs
           (st\<lparr>impl := impl', ret := r',
               logStream := logStream st @
                 (if action = VectorQ then data_row env ident imagePath r' a else [])\<rparr>) = (ex, st')"
        by (simp add: r)
      from Cons.IH [OF this] False show ?thesis by simp
    qed
  qed
qed

lemma processRecords_step:
  assumes "readImage env imagePath = Some img"
    and "vectorQuality env (impl st) (img\<lparr>description := mapStringToImgLabel env desc\<rparr>) = (impl', r, assessments)"
  shows "processRecords env VectorQ ((ident, imagePath, desc) # later) st =
     (if code r = NotImplemented then (Break, st\<lparr>impl := impl', ret := r\<rparr>)
      else processRecords env VectorQ later
             (st\<lparr>impl := impl', ret := r,
                 logStream := logStream st @ data_row env ident imagePath r assessments\<rparr>))"
  using assms by (simp add: Let_def)

lemma separated_Cons: "separated sep (x # xs) = x @ concat (map (\<lambda>y. sep @ y) xs)"
  by (induction xs arbitrary: x) auto

lemma log_header_spec: "log_header env = spec_header env"
  by (simp add: log_header_def spec_header_def comp_def)

lemma data_row_spec: "data_row env ident imagePath r q = spec_row env ((ident, imagePath, desc), r, q)"
  by (simp add: data_row_def spec_row_def spec_columns_def separated_Cons Let_def comp_def
      option.case_distrib [of "\<lambda>s. '' '' @ s"])

lemma processRecords_log:
  "logStream (snd (processRecords env VectorQ recs st)) =
     logStream st @ concat (map (spec_row env) (evaluated env (impl st) recs))"
proof (induction recs arbitrary: st)
  case Nil
  show ?case by simp
next
  case (Cons r xs)
  obtain ident imagePath desc where r: "r = (ident, imagePath, desc)"
    by (cases r) auto
  show ?case
    unfolding r
    by (auto simp: Cons.IH Let_def data_row_spec [of _ _ _ _ _ desc] split: option.splits prod.splits)
qed

lemma processRecords_all_evaluated:
  "processRecords env VectorQ recs st = (EndOfInput, st') \<Longrightarrow>
     map fst (evaluated env (impl st) recs) = recs"
proof (induction recs arbitrary: st)
  case Nil
  show ?case by simp
next
  case (Cons r xs)
  obtain ident imagePath desc where r: "r = (ident, imagePath, desc)"
    by (cases r) auto
  from Cons.prems show ?case
    unfolding r
    by (auto simp: Let_def split: option.splits prod.splits if_splits dest: Cons.IH)
qed

lemma runQuality_raised:
  assumes "files fs inputFile = Some content"
    and "writable fs outputLog"
    and "processRecords env action (read_records (tokens content))
           \<lparr>impl = implPtr, ret = ReturnStatus_default,
            logStream = (if action = VectorQ then log_header env else []), cerr = []\<rparr>
         = (Raised sig, st)"
  shows "runQuality env implPtr inputFile outputLog action fs =
     (Signalled sig, fs\<lparr>files := (files fs)(outputLog \<mapsto> logStream st)\<rparr>, cerr st)"
  using assms by (simp add: runQuality_def Let_def)

lemma runQuality_returned:
  assumes "files fs inputFile = Some content"
    and "writable fs outputLog"
    and "inputFile \<noteq> outputLog"
    and "processRecords env action (read_records (tokens content))
           \<lparr>impl = implPtr, ret = ReturnStatus_default,
            logStream = (if action = VectorQ then log_header env else []), cerr = []\<rparr>
         = (ex, st)"
    and "ex = EndOfInput \<or> ex = Break"
  shows "runQuality env implPtr inputFile outputLog action fs =
     (if ex = Break
      then (Returned NOT_IMPLEMENTED,
            fs\<lparr>files := (files fs)(outputLog := None, inputFile := None)\<rparr>, cerr st)
      else (Returned SUCCESS,
            fs\<lparr>files := (files fs)(outputLog \<mapsto> logStream st, inputFile := None)\<rparr>, cerr st))"
proof -
  have d: "code (ReturnStatus_default) \<noteq> NotImplemented"
    by (simp add: ReturnStatus_default_def)
  from processRecords_ret [OF assms(4)] d
  have c: "(ex = Break \<longrightarrow> code (ret st) = NotImplemented)
         \<and> (ex = EndOfInput \<longrightarrow> code (ret st) \<noteq> NotImplemented)"
    by simp
  from assms(5) show ?thesis
  proof
    assume e: "ex = EndOfInput"
    with c assms show ?thesis
      by (simp add: runQuality_def Let_def remove_file_def fun_upd_twist)
  next
    assume e: "ex = Break"
    with c assms show ?thesis
      by (simp add: runQuality_def Let_def remove_file_def fun_upd_twist)
  qed
qed

lemmas demo_run_simps =
  runQuality_def demo_env_def demo_fs_def tokens_def isspace_def Let_def remove_file_def

subsection \<open>The record evaluator\<close>

text \<open>
  C2. When \<open>vectorQuality\<close> returns \<open>NotImplemented\<close> at a record of the shard, the
  loop is left through \<open>break\<close> with the log stream as it was after the records
  before (no line for this record or a later one), \<open>runQuality\<close> deletes the shard
  input file and the output log and returns \<open>NOT_IMPLEMENTED\<close>, which differs from
  \<open>SUCCESS\<close> and from \<open>FAILURE\<close>.
\<close>

theorem runQuality_not_implemented:
  assumes "files fs inputFile = Some content"
    and "writable fs outputLog"
    and "inputFile \<noteq> outputLog"
    and "read_records (tokens content) = before @ (ident, imagePath, desc) # later"
    and "processRecords env VectorQ before
           \<lparr>impl = implPtr, ret = ReturnStatus_default, logStream = log_header env, cerr = []\<rparr>
         = (EndOfInput, st)"
    and "readImage env imagePath = Some img"
    and "vectorQuality env (impl st) (img\<lparr>description := mapStringToImgLabel env desc\<rparr>)
         = (impl', r, assessments)"
    and "code r = NotImplemented"
  shows "processRecords env VectorQ (read_records (tokens content))
           \<lparr>impl = implPtr, ret = ReturnStatus_default, logStream = log_header env, cerr = []\<rparr>
         = (Break, st\<lparr>impl := impl', ret := r\<rparr>)
       \<and> runQuality env implPtr inputFile outputLog VectorQ fs
         = (Returned NOT_IMPLEMENTED,
            fs\<lparr>files := (files fs)(outputLog := None, inputFile := None)\<rparr>, cerr st)
       \<and> NOT_IMPLEMENTED \<noteq> SUCCESS \<and> NOT_IMPLEMENTED \<noteq> FAILURE"
proof -
  let ?init = "\<lparr>impl = implPtr, ret = ReturnStatus_default, logStream = log_header env, cerr = []\<rparr>"
  have loop: "processRecords env VectorQ (read_records (tokens content)) ?init
      = (Break, st\<lparr>impl := impl', ret := r\<rparr>)"
    using assms(5) processRecords_step [OF assms(6) assms(7)] assms(8)
    by (simp add: assms(4) processRecords_append)
  have "runQuality env implPtr inputFile outputLog VectorQ fs
      = (Returned NOT_IMPLEMENTED,
         fs\<lparr>files := (files fs)(outputLog := None, inputFile := None)\<rparr>, cerr st)"
    using runQuality_returned [of fs inputFile content outputLog env VectorQ implPtr Break
        "st\<lparr>impl := impl', ret := r\<rparr>"] assms(1-3) loop
    by simp
  with loop show ?thesis
    by (simp add: NOT_IMPLEMENTED_def SUCCESS_def FAILURE_def)
qed

theorem runQuality_not_implemented_witness:
  "files (demo_fs ''a a.png iso b b.png none c c.png iso'') ''shard.0''
     = Some ''a a.png iso b b.png none c c.png iso''
   \<and> writable (demo_fs ''a a.png iso b b.png none c c.png iso'') ''out.log.0''
   \<and> read_records (tokens ''a a.png iso b b.png none c c.png iso'')
     = [(''a'', ''a.png'', ''iso'')] @ (''b'', ''b.png'', ''none'') # [(''c'', ''c.png'', ''iso'')]
   \<and> fst (processRecords demo_env VectorQ [(''a'', ''a.png'', ''iso'')]
           \<lparr>impl = 0, ret = ReturnStatus_default, logStream = log_header demo_env, cerr = []\<rparr>)
     = EndOfInput
   \<and> code (fst (snd (vectorQuality demo_env 1 \<lparr>raster = (), description = ''none''\<rparr>)))
     = NotImplemented
   \<and> fst (runQuality demo_env 0 ''shard.0'' ''out.log.0'' VectorQ
           (demo_fs ''a a.png iso b b.png none c c.png iso''))
     = Returned NOT_IMPLEMENTED
   \<and> files (fst (snd (runQuality demo_env 0 ''shard.0'' ''out.log.0'' VectorQ
           (demo_fs ''a a.png iso b b.png none c c.png iso'')))) ''shard.0'' = None
   \<and> files (fst (snd (runQuality demo_env 0 ''shard.0'' ''out.log.0'' VectorQ
           (demo_fs ''a a.png iso b b.png none c c.png iso'')))) ''out.log.0'' = None"
proof -
  let ?content = "''a a.png iso b b.png none c c.png iso''"
  let ?init = "\<lparr>impl = 0::nat, ret = ReturnStatus_default, logStream = log_header demo_env, cerr = []\<rparr>"
  let ?st = "snd (processRecords demo_env VectorQ [(''a'', ''a.png'', ''iso'')] ?init)"
  have h1: "files (demo_fs ?content) ''shard.0'' = Some ?content"
    by (simp add: demo_fs_def)
  have h2: "writable (demo_fs ?content) ''out.log.0''"
    by (simp add: demo_fs_def)
  have h3: "''shard.0'' \<noteq> ''out.log.0''"
    by simp
  have h4: "read_records (tokens ?content)
      = [(''a'', ''a.png'', ''iso'')] @ (''b'', ''b.png'', ''none'') # [(''c'', ''c.png'', ''iso'')]"
    by (simp add: tokens_def isspace_def)
  have h5a: "fst (processRecords demo_env VectorQ [(''a'', ''a.png'', ''iso'')] ?init) = EndOfInput"
    by (simp add: demo_env_def Let_def)
  then have h5: "processRecords demo_env VectorQ [(''a'', ''a.png'', ''iso'')] ?init = (EndOfInput, ?st)"
    by (simp add: prod_eq_iff)
  have h6: "readImage demo_env ''b.png'' = Some \<lparr>raster = (), description = ''''\<rparr>"
    by (simp add: demo_env_def)
  have i: "impl ?st = 1"
    by (simp add: demo_env_def Let_def)
  have h7: "vectorQuality demo_env (impl ?st)
        (\<lparr>raster = (), description = ''''\<rparr>\<lparr>description := mapStringToImgLabel demo_env ''none''\<rparr>)
      = (2, \<lparr>code = NotImplemented, info = ''''\<rparr>,
         \<lparr>qAssessments = [0 \<mapsto> 1], boundingBox = BoundingBox_default\<rparr>)"
    unfolding i by (simp add: demo_env_def)
  have h8: "code \<lparr>code = NotImplemented, info = ''''\<rparr> = NotImplemented"
    by simp
  have h9: "code (fst (snd (vectorQuality demo_env 1 \<lparr>raster = (), description = ''none''\<rparr>)))
      = NotImplemented"
    by (simp add: demo_env_def)
  from runQuality_not_implemented [OF h1 h2 h3 h4 h5 h6 h7 h8] h1 h2 h4 h5a h9
  show ?thesis
    by simp
qed

lemma processRecords_continues:
  assumes "processRecords env VectorQ before st0 = (EndOfInput, st)"
    and "readImage env imagePath = Some img"
    and "vectorQuality env (impl st) (img\<lparr>description := mapStringToImgLabel env desc\<rparr>)
         = (impl', r, assessments)"
    and "code r \<noteq> Success"
    and "code r \<noteq> NotImplemented"
  shows "processRecords env VectorQ (before @ (ident, imagePath, desc) # later) st0
         = processRecords env VectorQ later
             (st\<lparr>impl := impl', ret := r,
                 logStream := logStream st @ data_row env ident imagePath r assessments\<rparr>)
       \<and> (\<exists>columns. data_row env ident imagePath r assessments
             = ident @ '' '' @ imagePath @ '' '' @ to_string (ReturnCode_value (code r)) @ '' '' @
               columns @ endl)"
proof -
  have "processRecords env VectorQ (before @ (ident, imagePath, desc) # later) st0
      = processRecords env VectorQ ((ident, imagePath, desc) # later) st"
    using assms(1) by (simp add: processRecords_append)
  also have "\<dots> = processRecords env VectorQ later
             (st\<lparr>impl := impl', ret := r,
                 logStream := logStream st @ data_row env ident imagePath r assessments\<rparr>)"
    using processRecords_step [OF assms(2) assms(3)] assms(5) by simp
  finally show ?thesis
    by (simp add: data_row_def Let_def)
qed

text \<open>
  C5. A record whose \<open>vectorQuality\<close> status is neither \<open>Success\<close> nor
  \<open>NotImplemented\<close> does not stop \<open>runQuality\<close>: the read loop appends a data row
  for it like for any other record, with the status code as an integer in the third
  column, and goes on with the records after it; whenever \<open>runQuality\<close> leaves a log
  behind, the log file holds that row after the lines of the records before, followed by
  the rows of the records evaluated after it, and \<open>runQuality\<close> deletes the log only
  when a later record makes the loop break.
\<close>

theorem runQuality_error_status_continues:
  assumes "files fs inputFile = Some content"
    and "writable fs outputLog"
    and "inputFile \<noteq> outputLog"
    and "read_records (tokens content) = before @ (ident, imagePath, desc) # later"
    and "processRecords env VectorQ before
           \<lparr>impl = implPtr, ret = ReturnStatus_default, logStream = log_header env, cerr = []\<rparr>
         = (EndOfInput, st)"
    and "readImage env imagePath = Some img"
    and "vectorQuality env (impl st) (img\<lparr>description := mapStringToImgLabel env desc\<rparr>)
         = (impl', r, assessments)"
    and "code r \<noteq> Success"
    and "code r \<noteq> NotImplemented"
    and "runQuality env implPtr inputFile outputLog VectorQ fs = (res, fs', err)"
  shows "processRecords env VectorQ (read_records (tokens content))
           \<lparr>impl = implPtr, ret = ReturnStatus_default, logStream = log_header env, cerr = []\<rparr>
         = processRecords env VectorQ later
             (st\<lparr>impl := impl', ret := r,
                 logStream := logStream st @ data_row env ident imagePath r assessments\<rparr>)
       \<and> (\<exists>columns. data_row env ident imagePath r assessments
             = ident @ '' '' @ imagePath @ '' '' @ to_string (ReturnCode_value (code r)) @ '' '' @
               columns @ endl)
       \<and> (res \<noteq> Returned NOT_IMPLEMENTED \<longrightarrow>
            files fs' outputLog
            = Some (logStream st @ data_row env ident imagePath r assessments @
                    concat (map (spec_row env) (evaluated env impl' later))))
       \<and> (res = Returned NOT_IMPLEMENTED \<longrightarrow>
            fst (processRecords env VectorQ later
                   (st\<lparr>impl := impl', ret := r,
                       logStream := logStream st @ data_row env ident imagePath r assessments\<rparr>))
            = Break)"
proof -
  let ?init = "\<lparr>impl = implPtr, ret = ReturnStatus_default,
      logStream = (if VectorQ = VectorQ then log_header env else []), cerr = []\<rparr>"
  let ?st1 = "st\<lparr>impl := impl', ret := r,
      logStream := logStream st @ data_row env ident imagePath r assessments\<rparr>"
  have step: "processRecords env VectorQ (read_records (tokens content)) ?init
      = processRecords env VectorQ later ?st1"
    using processRecords_continues
      [OF _ assms(6) assms(7) assms(8) assms(9), of before ?init ident later] assms(5)
    by (simp add: assms(4))
  obtain ex st2 where loop: "processRecords env VectorQ (read_records (tokens content)) ?init = (ex, st2)"
    by (cases "processRecords env VectorQ (read_records (tokens content)) ?init") auto
  have rest: "processRecords env VectorQ later ?st1 = (ex, st2)"
    using step loop by simp
  have log: "logStream st2 = logStream st @ data_row env ident imagePath r assessments @
      concat (map (spec_row env) (evaluated env impl' later))"
    using processRecords_log [of env later ?st1] rest by simp
  have outcome: "(res \<noteq> Returned NOT_IMPLEMENTED \<longrightarrow> files fs' outputLog = Some (logStream st2))
      \<and> (res = Returned NOT_IMPLEMENTED \<longrightarrow> ex = Break)"
  proof (cases ex)
    case EndOfInput
    with runQuality_returned [OF assms(1-3) loop] assms(10) assms(3) show ?thesis
      by (auto simp: NOT_IMPLEMENTED_def SUCCESS_def)
  next
    case Break
    with runQuality_returned [OF assms(1-3) loop] assms(10) show ?thesis
      by auto
  next
    case (Raised sig)
    with runQuality_raised [OF assms(1,2) loop [unfolded Raised]] assms(10) show ?thesis
      by auto
  qed
  from step outcome log rest show ?thesis
    by (simp add: data_row_def Let_def)
qed

theorem runQuality_error_status_continues_witness:
  "files (demo_fs ''a a.png iso b b.png dark c c.png iso'') ''shard.0''
     = Some ''a a.png iso b b.png dark c c.png iso''
   \<and> writable (demo_fs ''a a.png iso b b.png dark c c.png iso'') ''out.log.0''
   \<and> read_records (tokens ''a a.png iso b b.png dark c c.png iso'')
     = [(''a'', ''a.png'', ''iso'')] @ (''b'', ''b.png'', ''dark'') # [(''c'', ''c.png'', ''iso'')]
   \<and> fst (processRecords demo_env VectorQ [(''a'', ''a.png'', ''iso'')]
          \<lparr>impl = 0, ret = ReturnStatus_default, logStream = log_header demo_env, cerr = []\<rparr>)
     = EndOfInput
   \<and> readImage demo_env ''b.png'' = Some \<lparr>raster = (), description = ''''\<rparr>
   \<and> code (fst (snd (vectorQuality demo_env 1 \<lparr>raster = (), description = ''dark''\<rparr>)))
     = FaceDetectionError
   \<and> fst (runQuality demo_env 0 ''shard.0'' ''out.log.0'' VectorQ
           (demo_fs ''a a.png iso b b.png dark c c.png iso'')) = Returned SUCCESS
   \<and> files (fst (snd (runQuality demo_env 0 ''shard.0'' ''out.log.0'' VectorQ
           (demo_fs ''a a.png iso b b.png dark c c.png iso'')))) ''out.log.0''
     = Some (log_header demo_env @
             ''a a.png 0 -1 -1 -1 -1 0 NA'' @ endl @
             ''b b.png 8 -1 -1 -1 -1 1 NA'' @ endl @
             ''c c.png 0 -1 -1 -1 -1 2 NA'' @ endl)"
proof -
  let ?content = "''a a.png iso b b.png dark c c.png iso''"
  let ?run = "runQuality demo_env 0 ''shard.0'' ''out.log.0'' VectorQ (demo_fs ?content)"
  let ?init = "\<lparr>impl = 0::nat, ret = ReturnStatus_default, logStream = log_header demo_env, cerr = []\<rparr>"
  let ?st = "snd (processRecords demo_env VectorQ [(''a'', ''a.png'', ''iso'')] ?init)"
  have h1: "files (demo_fs ?content) ''shard.0'' = Some ?content"
    by (simp add: demo_fs_def)
  have h2: "writable (demo_fs ?content) ''out.log.0''"
    by (simp add: demo_fs_def)
  have h3: "''shard.0'' \<noteq> ''out.log.0''"
    by simp
  have h4: "read_records (tokens ?content)
      = [(''a'', ''a.png'', ''iso'')] @ (''b'', ''b.png'', ''dark'') # [(''c'', ''c.png'', ''iso'')]"
    by (simp add: tokens_def isspace_def)
  have h5a: "fst (processRecords demo_env VectorQ [(''a'', ''a.png'', ''iso'')] ?init) = EndOfInput"
    by (simp add: demo_env_def Let_def)
  then have h5: "processRecords demo_env VectorQ [(''a'', ''a.png'', ''iso'')] ?init = (EndOfInput, ?st)"
    by (simp add: prod_eq_iff)
  have h6: "readImage demo_env ''b.png'' = Some \<lparr>raster = (), description = ''''\<rparr>"
    by (simp add: demo_env_def)
  have i: "impl ?st = 1"
    by (simp add: demo_env_def Let_def)
  have h7: "vectorQuality demo_env (impl ?st)
        (\<lparr>raster = (), description = ''''\<rparr>\<lparr>description := mapStringToImgLabel demo_env ''dark''\<rparr>)
      = (2, \<lparr>code = FaceDetectionError, info = ''''\<rparr>,
         \<lparr>qAssessments = [0 \<mapsto> 1], boundingBox = BoundingBox_default\<rparr>)"
    unfolding i by (simp add: demo_env_def)
  have h8: "code \<lparr>code = FaceDetectionError, info = ''''\<rparr> \<noteq> Success"
    by simp
  have h9: "code \<lparr>code = FaceDetectionError, info = ''''\<rparr> \<noteq> NotImplemented"
    by simp
  have r: "fst ?run = Returned SUCCESS"
    by (simp add: demo_run_simps)
  then have h10: "?run = (Returned SUCCESS, fst (snd ?run), snd (snd ?run))"
    by (simp add: prod_eq_iff)
  have v: "code (fst (snd (vectorQuality demo_env 1 \<lparr>raster = (), description = ''dark''\<rparr>)))
      = FaceDetectionError"
    by (simp add: demo_env_def)
  have l: "logStream ?st @
      data_row demo_env ''b'' ''b.png'' \<lparr>code = FaceDetectionError, info = ''''\<rparr>
        \<lparr>qAssessments = [0 \<mapsto> 1], boundingBox = BoundingBox_default\<rparr> @
      concat (map (spec_row demo_env) (evaluated demo_env 2 [(''c'', ''c.png'', ''iso'')]))
    = log_header demo_env @
      ''a a.png 0 -1 -1 -1 -1 0 NA'' @ endl @ ''b b.png 8 -1 -1 -1 -1 1 NA'' @ endl @
      ''c c.png 0 -1 -1 -1 -1 2 NA'' @ endl"
    by (simp add: Let_def data_row_def spec_row_def spec_columns_def demo_env_def
        BoundingBox_default_def to_string_def string_of_nat.simps digit_char_def)
  from runQuality_error_status_continues [OF h1 h2 h3 h4 h5 h6 h7 h8 h9 h10] h1 h2 h4 h5a h6 v r
  show ?thesis
    unfolding l by (simp add: NOT_IMPLEMENTED_def SUCCESS_def)
qed

text \<open>
  C6. Whenever \<open>runQuality\<close> leaves a log behind, the log is the header line followed
  by one row per evaluated record, in the order of the shard, each row in the spec's
  column order with \<open>NA\<close> for a missing measure; when \<open>runQuality\<close> returns
  \<open>SUCCESS\<close> the evaluated records are all the records of the shard.
\<close>

theorem runQuality_log_format:
  assumes "files fs inputFile = Some content"
    and "writable fs outputLog"
    and "inputFile \<noteq> outputLog"
    and "runQuality env implPtr inputFile outputLog VectorQ fs = (res, fs', err)"
  shows "(res \<noteq> Returned NOT_IMPLEMENTED \<longrightarrow>
            files fs' outputLog
            = Some (spec_header env @
                    concat (map (spec_row env)
                      (evaluated env implPtr (read_records (tokens content))))))
       \<and> (res = Returned SUCCESS \<longrightarrow>
            map fst (evaluated env implPtr (read_records (tokens content)))
            = read_records (tokens content))"
proof -
  let ?recs = "read_records (tokens content)"
  let ?init = "\<lparr>impl = implPtr, ret = ReturnStatus_default,
      logStream = (if VectorQ = VectorQ then log_header env else []), cerr = []\<rparr>"
  obtain ex st where loop: "processRecords env VectorQ ?recs ?init = (ex, st)"
    by (cases "processRecords env VectorQ ?recs ?init") auto
  have log: "logStream st = spec_header env @ concat (map (spec_row env) (evaluated env implPtr ?recs))"
    using processRecords_log [of env ?recs ?init] loop by (simp add: log_header_spec)
  show ?thesis
  proof (cases ex)
    case EndOfInput
    with runQuality_returned [OF assms(1-3) loop] assms(4)
    have "res = Returned SUCCESS" and "files fs' outputLog = Some (logStream st)"
      using assms(3) by auto
    moreover have "map fst (evaluated env implPtr ?recs) = ?recs"
      using processRecords_all_evaluated [of env ?recs ?init st] loop EndOfInput by simp
    ultimately show ?thesis using log by simp
  next
    case Break
    with runQuality_returned [OF assms(1-3) loop] assms(4)
    have "res = Returned NOT_IMPLEMENTED" by auto
    then show ?thesis by (simp add: NOT_IMPLEMENTED_def SUCCESS_def)
  next
    case (Raised sig)
    with runQuality_raised [OF assms(1,2) loop [unfolded Raised]] assms(4)
    have "res = Signalled sig" and "files fs' outputLog = Some (logStream st)"
      by auto
    then show ?thesis using log by simp
  qed
qed

theorem runQuality_log_format_witness:
  "files (demo_fs ''a a.png iso b b.png dark'') ''shard.0'' = Some ''a a.png iso b b.png dark''
   \<and> writable (demo_fs ''a a.png iso b b.png dark'') ''out.log.0''
   \<and> ''shard.0'' \<noteq> ''out.log.0''
   \<and> fst (runQuality demo_env 0 ''shard.0'' ''out.log.0'' VectorQ
           (demo_fs ''a a.png iso b b.png dark'')) = Returned SUCCESS
   \<and> files (fst (snd (runQuality demo_env 0 ''shard.0'' ''out.log.0'' VectorQ
           (demo_fs ''a a.png iso b b.png dark'')))) ''out.log.0''
     = Some (''id image returnCode bb_xleft bb_ytop bb_width bb_height Sharpness Pose '' @ endl @
             ''a a.png 0 -1 -1 -1 -1 0 NA'' @ endl @
             ''b b.png 8 -1 -1 -1 -1 1 NA'' @ endl)"
proof -
  let ?content = "''a a.png iso b b.png dark''"
  let ?run = "runQuality demo_env 0 ''shard.0'' ''out.log.0'' VectorQ (demo_fs ?content)"
  have h1: "files (demo_fs ?content) ''shard.0'' = Some ?content"
    by (simp add: demo_fs_def)
  have h2: "writable (demo_fs ?content) ''out.log.0''"
    by (simp add: demo_fs_def)
  have h3: "''shard.0'' \<noteq> ''out.log.0''"
    by simp
  have r: "fst ?run = Returned SUCCESS"
    by (simp add: demo_run_simps)
  then have h4: "?run = (Returned SUCCESS, fst (snd ?run), snd (snd ?run))"
    by (simp add: prod_eq_iff)
  have t: "read_records (tokens ?content) = [(''a'', ''a.png'', ''iso''), (''b'', ''b.png'', ''dark'')]"
    by (simp add: tokens_def isspace_def)
  have e: "spec_header demo_env @
      concat (map (spec_row demo_env) (evaluated demo_env 0 (read_records (tokens ?content))))
    = ''id image returnCode bb_xleft bb_ytop bb_width bb_height Sharpness Pose '' @ endl @
      ''a a.png 0 -1 -1 -1 -1 0 NA'' @ endl @ ''b b.png 8 -1 -1 -1 -1 1 NA'' @ endl"
    unfolding t
    by (simp add: demo_env_def spec_header_def spec_row_def spec_columns_def
        BoundingBox_default_def to_string_def string_of_nat.simps digit_char_def)
  from runQuality_log_format [OF h1 h2 h3 h4] h1 h2 r
  show ?thesis
    unfolding e by (simp add: NOT_IMPLEMENTED_def SUCCESS_def)
qed

text \<open>
  C7. Whenever \<open>runQuality\<close> returns, the shard input file is gone; the output log is
  gone exactly when the result is \<open>NOT_IMPLEMENTED\<close> and is there when the result is
  \<open>SUCCESS\<close>; a file under any other path, such as the original manifest, is as it
  was.
\<close>

theorem runQuality_cleanup:
  assumes "runQuality env implPtr inputFile outputLog action fs = (Returned rc, fs', err)"
    and "inputFile \<noteq> outputLog"
    and "manifest \<noteq> inputFile"
    and "manifest \<noteq> outputLog"
  shows "files fs' inputFile = None
       \<and> (rc = NOT_IMPLEMENTED \<or> rc = SUCCESS)
       \<and> (rc = NOT_IMPLEMENTED \<longrightarrow> files fs' outputLog = None)
       \<and> (rc = SUCCESS \<longrightarrow> files fs' outputLog \<noteq> None)
       \<and> files fs' manifest = files fs manifest"
proof -
  obtain content where c: "files fs inputFile = Some content"
    using assms(1) by (cases "files fs inputFile") (auto simp: runQuality_def)
  have w: "writable fs outputLog"
    using assms(1) c by (cases "writable fs outputLog") (auto simp: runQuality_def)
  let ?init = "\<lparr>impl = implPtr, ret = ReturnStatus_default,
      logStream = (if action = VectorQ then log_header env else []), cerr = []\<rparr>"
  obtain ex st where loop:
    "processRecords env action (read_records (tokens content)) ?init = (ex, st)"
    by (cases "processRecords env action (read_records (tokens content)) ?init") auto
  show ?thesis
  proof (cases ex)
    case EndOfInput
    with runQuality_returned [OF c w assms(2) loop] assms show ?thesis
      by (auto simp: NOT_IMPLEMENTED_def SUCCESS_def)
  next
    case Break
    with runQuality_returned [OF c w assms(2) loop] assms show ?thesis
      by (auto simp: NOT_IMPLEMENTED_def SUCCESS_def)
  next
    case (Raised sig)
    with runQuality_raised [OF c w loop [unfolded Raised]] assms(1) show ?thesis
      by simp
  qed
qed

theorem runQuality_cleanup_witness:
  "fst (runQuality demo_env 0 ''shard.0'' ''out.log.0'' VectorQ (demo_fs ''a a.png iso''))
     = Returned SUCCESS
   \<and> files (fst (snd (runQuality demo_env 0 ''shard.0'' ''out.log.0'' VectorQ
           (demo_fs ''a a.png iso'')))) ''shard.0'' = None
   \<and> files (fst (snd (runQuality demo_env 0 ''shard.0'' ''out.log.0'' VectorQ
           (demo_fs ''a a.png iso'')))) ''out.log.0'' \<noteq> None
   \<and> files (fst (snd (runQuality demo_env 0 ''shard.0'' ''out.log.0'' VectorQ
           (demo_fs ''a a.png iso'')))) ''manifest.txt'' = Some ''a a.png iso''"
proof -
  let ?run = "runQuality demo_env 0 ''shard.0'' ''out.log.0'' VectorQ (demo_fs ''a a.png iso'')"
  have r: "fst ?run = Returned SUCCESS"
    by (simp add: demo_run_simps)
  then have h1: "?run = (Returned SUCCESS, fst (snd ?run), snd (snd ?run))"
    by (simp add: prod_eq_iff)
  have h2: "''shard.0'' \<noteq> ''out.log.0''"
    by simp
  have h3: "''manifest.txt'' \<noteq> ''shard.0''"
    by simp
  have h4: "''manifest.txt'' \<noteq> ''out.log.0''"
    by simp
  have m: "files (demo_fs ''a a.png iso'') ''manifest.txt'' = Some ''a a.png iso''"
    by (simp add: demo_fs_def)
  from runQuality_cleanup [OF h1 h2 h3 h4] r m
  show ?thesis
    by simp
qed

text \<open>
  C8. When \<open>readImage\<close> fails at a record that the loop reaches, the worker ends with
  \<open>SIGTERM\<close>: \<open>runQuality\<close> does not return, the log holds the lines written
  for the records before and nothing for this record or a later one, and the shard input
  file stays.
\<close>

theorem runQuality_unreadable_image:
  assumes "files fs inputFile = Some content"
    and "writable fs outputLog"
    and "inputFile \<noteq> outputLog"
    and "read_records (tokens content) = before @ (ident, imagePath, desc) # later"
    and "processRecords env action before
           \<lparr>impl = implPtr, ret = ReturnStatus_default,
            logStream = (if action = VectorQ then log_header env else []), cerr = []\<rparr>
         = (EndOfInput, st)"
    and "readImage env imagePath = None"
  shows "runQuality env implPtr inputFile outputLog action fs
         = (Signalled SIGTERM,
            fs\<lparr>files := (files fs)(outputLog \<mapsto> logStream st)\<rparr>,
            cerr st @ [''[ERROR] Failed to load image file: '' @ imagePath @ ''.''])"
proof -
  let ?init = "\<lparr>impl = implPtr, ret = ReturnStatus_default,
      logStream = (if action = VectorQ then log_header env else []), cerr = []\<rparr>"
  have "processRecords env action (read_records (tokens content)) ?init
      = (Raised SIGTERM,
         st\<lparr>cerr := cerr st @ [''[ERROR] Failed to load image file: '' @ imagePath @ ''.'']\<rparr>)"
    using assms(5,6) by (simp add: assms(4) processRecords_append)
  from runQuality_raised [OF assms(1,2) this] show ?thesis
    by simp
qed

theorem runQuality_unreadable_image_witness:
  "files (demo_fs ''a a.png iso b gone.png iso c c.png iso'') ''shard.0''
     = Some ''a a.png iso b gone.png iso c c.png iso''
   \<and> writable (demo_fs ''a a.png iso b gone.png iso c c.png iso'') ''out.log.0''
   \<and> read_records (tokens ''a a.png iso b gone.png iso c c.png iso'')
     = [(''a'', ''a.png'', ''iso'')] @ (''b'', ''gone.png'', ''iso'') # [(''c'', ''c.png'', ''iso'')]
   \<and> readImage demo_env ''gone.png'' = None
   \<and> fst (runQuality demo_env 0 ''shard.0'' ''out.log.0'' VectorQ
           (demo_fs ''a a.png iso b gone.png iso c c.png iso'')) = Signalled SIGTERM
   \<and> files (fst (snd (runQuality demo_env 0 ''shard.0'' ''out.log.0'' VectorQ
           (demo_fs ''a a.png iso b gone.png iso c c.png iso'')))) ''out.log.0''
     = Some (log_header demo_env @ ''a a.png 0 -1 -1 -1 -1 0 NA'' @ endl)
   \<and> files (fst (snd (runQuality demo_env 0 ''shard.0'' ''out.log.0'' VectorQ
           (demo_fs ''a a.png iso b gone.png iso c c.png iso'')))) ''shard.0''
     = Some ''a a.png iso b gone.png iso c c.png iso''"
proof -
  let ?content = "''a a.png iso b gone.png iso c c.png iso''"
  let ?init = "\<lparr>impl = 0::nat, ret = ReturnStatus_default,
      logStream = (if VectorQ = VectorQ then log_header demo_env else []), cerr = []\<rparr>"
  let ?st = "snd (processRecords demo_env VectorQ [(''a'', ''a.png'', ''iso'')] ?init)"
  have h1: "files (demo_fs ?content) ''shard.0'' = Some ?content"
    by (simp add: demo_fs_def)
  have h2: "writable (demo_fs ?content) ''out.log.0''"
    by (simp add: demo_fs_def)
  have h3: "''shard.0'' \<noteq> ''out.log.0''"
    by simp
  have h4: "read_records (tokens ?content)
      = [(''a'', ''a.png'', ''iso'')] @ (''b'', ''gone.png'', ''iso'') # [(''c'', ''c.png'', ''iso'')]"
    by (simp add: tokens_def isspace_def)
  have "fst (processRecords demo_env VectorQ [(''a'', ''a.png'', ''iso'')] ?init) = EndOfInput"
    by (simp add: demo_env_def Let_def)
  then have h5: "processRecords demo_env VectorQ [(''a'', ''a.png'', ''iso'')] ?init = (EndOfInput, ?st)"
    by (simp add: prod_eq_iff)
  have h6: "readImage demo_env ''gone.png'' = None"
    by (simp add: demo_env_def)
  have l: "logStream ?st = log_header demo_env @ ''a a.png 0 -1 -1 -1 -1 0 NA'' @ endl"
    by (simp add: Let_def data_row_def demo_env_def BoundingBox_default_def to_string_def
        string_of_nat.simps digit_char_def)
  from runQuality_unreadable_image [OF h1 h2 h3 h4 h5 h6] h1 h2 h4 h6 l
  show ?thesis
    by (simp add: demo_fs_def)
qed

text \<open>
  C10. On a shard without a complete record \<open>runQuality\<close> writes the header line
  only, deletes the shard input file, leaves the log, and returns \<open>SUCCESS\<close>: the
  variable \<open>ret\<close> still holds the default status, whose code \<open>UnknownError\<close> is
  not \<open>NotImplemented\<close>.
\<close>

theorem runQuality_empty_shard:
  assumes "files fs inputFile = Some content"
    and "read_records (tokens content) = []"
    and "writable fs outputLog"
    and "inputFile \<noteq> outputLog"
  shows "runQuality env implPtr inputFile outputLog VectorQ fs
         = (Returned SUCCESS,
            fs\<lparr>files := (files fs)(outputLog \<mapsto> log_header env, inputFile := None)\<rparr>, [])
       \<and> code ReturnStatus_default = UnknownError
       \<and> code ReturnStatus_default \<noteq> NotImplemented"
proof -
  have "processRecords env VectorQ (read_records (tokens content))
          \<lparr>impl = implPtr, ret = ReturnStatus_default,
           logStream = (if VectorQ = VectorQ then log_header env else []), cerr = []\<rparr>
      = (EndOfInput,
         \<lparr>impl = implPtr, ret = ReturnStatus_default, logStream = log_header env, cerr = []\<rparr>)"
    by (simp add: assms(2))
  from runQuality_returned [OF assms(1,3,4) this] show ?thesis
    by (simp add: ReturnStatus_default_def)
qed

theorem runQuality_empty_shard_witness:
  "files (demo_fs ''a a.png'') ''shard.0'' = Some ''a a.png''
   \<and> read_records (tokens ''a a.png'') = []
   \<and> writable (demo_fs ''a a.png'') ''out.log.0''
   \<and> fst (runQuality demo_env 0 ''shard.0'' ''out.log.0'' VectorQ (demo_fs ''a a.png''))
     = Returned SUCCESS
   \<and> files (fst (snd (runQuality demo_env 0 ''shard.0'' ''out.log.0'' VectorQ
           (demo_fs ''a a.png'')))) ''out.log.0''
     = Some (''id image returnCode bb_xleft bb_ytop bb_width bb_height Sharpness Pose '' @ endl)
   \<and> files (fst (snd (runQuality demo_env 0 ''shard.0'' ''out.log.0'' VectorQ
           (demo_fs ''a a.png'')))) ''shard.0'' = None"
proof -
  have h1: "files (demo_fs ''a a.png'') ''shard.0'' = Some ''a a.png''"
    by (simp add: demo_fs_def)
  have h2: "read_records (tokens ''a a.png'') = []"
    by (simp add: tokens_def isspace_def)
  have h3: "writable (demo_fs ''a a.png'') ''out.log.0''"
    by (simp add: demo_fs_def)
  have h4: "''shard.0'' \<noteq> ''out.log.0''"
    by simp
  have l: "log_header demo_env
      = ''id image returnCode bb_xleft bb_ytop bb_width bb_height Sharpness Pose '' @ endl"
    by (simp add: log_header_def demo_env_def)
  from runQuality_empty_shard [OF h1 h2 h3 h4, of demo_env 0] h1 h2 h3 l
  show ?thesis
    by simp
qed

subsection \<open>The join loop\<close>

text \<open>
  C1. The claim: the harness exits with failure as soon as one child was terminated by a
  signal or exited with a non-success code, whatever the other children did and in
  whatever order they were reaped. The join loop overwrites \<open>exitStatus\<close> at every child
  it reaps, so the last child reaped decides alone: with three workers, the second
  terminated by \<open>SIGTERM\<close> and reaped before the third, which exits with the success
  code, the loop ends with the success code; had the same child been reaped last, the
  loop would have ended with \<open>FAILURE\<close>.
\<close>

theorem waitChildren_last_child_decides:
  "fst (waitChildren 3 SUCCESS
          [(101, StatExited SUCCESS), (102, StatSignaled SIGTERM), (103, StatExited SUCCESS)] [])
     = Returned SUCCESS
   \<and> fst (waitChildren 3 SUCCESS
          [(101, StatExited SUCCESS), (103, StatExited SUCCESS), (102, StatSignaled SIGTERM)] [])
     = Returned FAILURE"
  by (simp add: SUCCESS_def)

subsection \<open>The version gate and the command line\<close>

lemmas demo_main_simps =
  main_def versionGate_def demo_versions_def demo_harness_def default_options_def usage_def
  orchestrate_def Let_def show_uint16_def string_of_nat.simps digit_char_def
  SUCCESS_def FAILURE_def EXIT_FAILURE_def

lemma main_version_mismatch:
  "versionGate v = Some diagnostic \<Longrightarrow> main v h argv = (Returned FAILURE, [Cerr diagnostic])"
  by (simp add: main_def)

text \<open>
  C3. The claim: on a mismatch of either version pair \<open>main\<close> returns \<open>FAILURE\<close>
  before any call of the algorithm, the partitioner or \<open>fork\<close>, and prints which pair
  mismatched with the expected and the actual versions. \<open>main\<close> does return
  \<open>FAILURE\<close> with nothing but the diagnostic, but for the interface pair the diagnostic
  prints the expected minor version from \<open>currStructsMinorVersion\<close>: with the declared
  interface version 4.0 against the expected 4.1 it asks to re-build with version 4.0.
\<close>

theorem main_api_mismatch_prints_wrong_expected_version:
  "main (demo_versions 4 0) demo_harness [''validate'', ''vectorQ'', ''-i'', ''manifest.txt'']
   = (Returned FAILURE,
      [Cerr (''[ERROR] You'' @ [CHR 0x27] @
             ''ve compiled your library with an old version of the API header file: 4.0'' @
             ''.  Please re-build with the latest version:4.0.'')])"
  by (simp add: demo_main_simps)

lemma parseFlags_unrecognized:
  assumes "\<forall>p \<in> set pairs. known_flag (fst p)"
    and "\<not> known_flag flag"
  shows "parseFlags (concat (map (\<lambda>p. [fst p, snd p]) pairs) @ flag # rest) opts
         = Inl (UnrecognizedFlag flag)"
  using assms
proof (induction pairs arbitrary: opts)
  case Nil
  then show ?case
    by (cases rest) (auto simp: known_flag_def)
next
  case (Cons p pairs)
  then show ?case
    by (cases p) (auto simp: known_flag_def)
qed

text \<open>
  C9. The claim: an unrecognized flag or a missing required flag ends the program
  through the usage message, before any call of the algorithm. No flag is required: with
  the program name and the action alone, the variables keep their initial values and
  \<open>main\<close> calls \<open>getImplementation\<close>, \<open>initialize\<close> and the partitioner.
\<close>

theorem main_without_flags_counterexample:
  "main (demo_versions 4 1) demo_harness [''validate'', ''vectorQ'']
   = (Returned FAILURE,
      [CallGetImplementation, CallInitialize ''config'', CallSplitInputFile '''' ''output'' 1,
       Cerr ''[ERROR] An error occurred with processing the input file.''])"
  by (simp add: demo_main_simps)

text \<open>
  C9, as the code has it: when the version gate passes and the command line is the
  program name alone (the action is missing), or the flag loop, after any number of
  flags with their values, meets an argument that is none of the five flags, \<open>main\<close>
  ends through \<open>exit(EXIT_FAILURE)\<close>, the usage message is the last line on
  \<open>cerr\<close>, and nothing was called before.
\<close>

theorem main_usage:
  assumes "versionGate v = None"
    and "argv = [executable] \<or>
         (argv = executable # actionstr # concat (map (\<lambda>p. [fst p, snd p]) pairs) @ flag # rest
          \<and> (\<forall>p \<in> set pairs. known_flag (fst p)) \<and> \<not> known_flag flag)"
  shows "fst (main v h argv) = Exited EXIT_FAILURE
       \<and> last (snd (main v h argv))
         = Cerr (''Usage: '' @ executable @
                 '' -c configDir -o outputDir -h outputStem -i inputFile -t numForks'')
       \<and> filter is_call (snd (main v h argv)) = []"
  using assms(2)
proof
  assume "argv = [executable]"
  with assms(1) show ?thesis
    by (simp add: main_def usage_def)
next
  assume a: "argv = executable # actionstr # concat (map (\<lambda>p. [fst p, snd p]) pairs) @ flag # rest
          \<and> (\<forall>p \<in> set pairs. known_flag (fst p)) \<and> \<not> known_flag flag"
  then have "parseFlags (concat (map (\<lambda>p. [fst p, snd p]) pairs) @ flag # rest) default_options
      = Inl (UnrecognizedFlag flag)"
    by (simp add: parseFlags_unrecognized)
  with a assms(1) show ?thesis
    by (simp add: main_def usage_def)
qed

theorem main_usage_witness:
  "versionGate (demo_versions 4 1) = None
   \<and> [''validate'', ''vectorQ'', ''-c'', ''cfg'', ''-x'', ''1'']
     = ''validate'' # ''vectorQ'' # concat (map (\<lambda>p. [fst p, snd p]) [(''-c'', ''cfg'')]) @ ''-x'' # [''1'']
   \<and> known_flag ''-c'' \<and> \<not> known_flag ''-x''
   \<and> main (demo_versions 4 1) demo_harness [''validate'', ''vectorQ'', ''-c'', ''cfg'', ''-x'', ''1'']
     = (Exited EXIT_FAILURE,
        [Cerr ''[ERROR] Unrecognized flag: -x'',
         Cerr ''Usage: validate -c configDir -o outputDir -h outputStem -i inputFile -t numForks''])"
proof -
  let ?argv = "[''validate'', ''vectorQ'', ''-c'', ''cfg'', ''-x'', ''1'']"
  have h1: "versionGate (demo_versions 4 1) = None"
    by (simp add: versionGate_def demo_versions_def)
  have h2: "?argv = [''validate''] \<or>
      (?argv = ''validate'' # ''vectorQ'' # concat (map (\<lambda>p. [fst p, snd p]) [(''-c'', ''cfg'')]) @ ''-x'' # [''1'']
       \<and> (\<forall>p \<in> set [(''-c'', ''cfg'')]. known_flag (fst p)) \<and> \<not> known_flag ''-x'')"
    by (simp add: known_flag_def)
  have e: "snd (main (demo_versions 4 1) demo_harness ?argv)
      = [Cerr ''[ERROR] Unrecognized flag: -x'',
         Cerr ''Usage: validate -c configDir -o outputDir -h outputStem -i inputFile -t numForks'']"
    by (simp add: demo_main_simps)
  from main_usage [OF h1 h2, of demo_harness] h1 e
  show ?thesis
    by (simp add: known_flag_def prod_eq_iff)
qed

subsection \<open>The partitioner\<close>

lemma length_shard_sizes: "length (shard_sizes q r k) = k"
  by (induction k arbitrary: r) auto

lemma sum_list_shard_sizes: "sum_list (shard_sizes q r k) = q * k + min r k"
  by (induction k arbitrary: r) auto

lemma length_take_blocks: "length (take_blocks ns xs) = length ns"
  by (induction ns arbitrary: xs) auto

lemma concat_take_blocks: "concat (take_blocks ns xs) = take (sum_list ns) xs"
proof (induction ns arbitrary: xs)
  case Nil
  show ?case by simp
next
  case (Cons n ns)
  have "take (n + sum_list ns) xs = take n xs @ take (sum_list ns) (drop n xs)"
    by (rule take_add)
  with Cons.IH show ?case by simp
qed

text \<open>
  C4. For a shard count of at least 1 the partitioner of the spec yields that many
  shards; their records, concatenated in shard order, are the records of the manifest in
  their order (nothing duplicated, dropped or reordered), and the shard sizes add up to
  the number of records.
\<close>

theorem splitRecords_partition:
  assumes "1 \<le> N"
  shows "length (splitRecords N records) = N
       \<and> concat (splitRecords N records) = records
       \<and> sum_list (map length (splitRecords N records)) = length records"
proof -
  let ?M = "length records"
  have "?M mod N < N"
    using assms by simp
  then have "sum_list (shard_sizes (?M div N) (?M mod N) N) = ?M div N * N + ?M mod N"
    by (simp only: sum_list_shard_sizes min_def) simp
  then have s: "sum_list (shard_sizes (?M div N) (?M mod N) N) = ?M"
    by simp
  have c: "concat (splitRecords N records) = records"
    by (simp add: splitRecords_def concat_take_blocks s)
  have "sum_list (map length (splitRecords N records)) = length (concat (splitRecords N records))"
    by (simp add: length_concat)
  with c show ?thesis
    by (simp add: splitRecords_def length_take_blocks length_shard_sizes)
qed

theorem splitRecords_partition_witness:
  "(1::nat) \<le> 3
   \<and> splitRecords 3 [''r1'', ''r2'', ''r3'', ''r4'', ''r5'']
     = [[''r1'', ''r2''], [''r3'', ''r4''], [''r5'']]
   \<and> length (splitRecords 3 [''r1'', ''r2'', ''r3'', ''r4'', ''r5'']) = 3
   \<and> concat (splitRecords 3 [''r1'', ''r2'', ''r3'', ''r4'', ''r5''])
     = [''r1'', ''r2'', ''r3'', ''r4'', ''r5'']
   \<and> sum_list (map length (splitRecords 3 [''r1'', ''r2'', ''r3'', ''r4'', ''r5''])) = 5"
proof -
  have h: "(1::nat) \<le> 3"
    by simp
  have e: "splitRecords 3 [''r1'', ''r2'', ''r3'', ''r4'', ''r5'']
      = [[''r1'', ''r2''], [''r3'', ''r4''], [''r5'']]"
    by code_simp
  from splitRecords_partition [OF h, of "[''r1'', ''r2'', ''r3'', ''r4'', ''r5'']"] e h
  show ?thesis
    by simp
qed

end
